theory Spec2Isabelle
  imports Main "HOL-Library.Word"
begin

section \<open>PS/2 keyboard decoder (ps2kbd.c)\<close>

text \<open>
  The decoder of \<^verbatim>\<open>src/ps2kbd.c\<close>: the two translation tables, the three static
  bytes \<^verbatim>\<open>release\<close>, \<^verbatim>\<open>shift\<close> and \<^verbatim>\<open>ascii\<close>, and the two entry points
  \<^verbatim>\<open>kbd_ready\<close> and \<^verbatim>\<open>kbd_getc\<close>. The PIO state machine that samples the
  keyboard lines is hardware; of it the decoder sees only the receive FIFO, which is a
  queue of scancode bytes here (the byte the C code reads at offset 3 of the FIFO
  register), head first.
\<close>

type_synonym u8 = "8 word"

subsection \<open>Translation tables\<close>

definition BS :: u8 where "BS = 0x8"
definition TAB :: u8 where "TAB = 0x9"
definition LF :: u8 where "LF = 0xA"
definition ESC :: u8 where "ESC = 0x1B"

text \<open>
  \<^verbatim>\<open>static const uint8_t lower[]\<close>: ASCII codes by keyboard-code index, 16 elements
  per row, 8 rows. The entries are the character codes of the C initialiser.
\<close>

definition lower :: "u8 list" where
  "lower = [
    0,    0,    0,    0,    0,    0,    0,    0, 0, 0,    0,    0,    0,    TAB,  0x60, 0,
    0,    0,    0,    0,    0,    0x71, 0x31, 0, 0, 0,    0x7A, 0x73, 0x61, 0x77, 0x32, 0,
    0,    0x63, 0x78, 0x64, 0x65, 0x34, 0x33, 0, 0, 0x20, 0x76, 0x66, 0x74, 0x72, 0x35, 0,
    0,    0x6E, 0x62, 0x68, 0x67, 0x79, 0x36, 0, 0, 0,    0x6D, 0x6A, 0x75, 0x37, 0x38, 0,
    0,    0x2C, 0x6B, 0x69, 0x6F, 0x30, 0x39, 0, 0, 0x2E, 0x2F, 0x6C, 0x3B, 0x70, 0x2D, 0,
    0,    0,    0x27, 0,    0x5B, 0x3D, 0,    0, 0, 0,    LF,   0x5D, 0,    0x5C, 0,    0,
    0,    0,    0,    0,    0,    0,    BS,   0, 0, 0,    0,    0,    0,    0,    0,    0,
    0,    0,    0,    0,    0,    0,    ESC,  0, 0, 0,    0,    0,    0,    0,    0,    0]"

text \<open>\<^verbatim>\<open>static const uint8_t upper[]\<close>: the same keys with shift held.\<close>

definition upper :: "u8 list" where
  "upper = [
    0,    0,    0,    0,    0,    0,    0,    0, 0, 0,    0,    0,    0,    TAB,  0x7E, 0,
    0,    0,    0,    0,    0,    0x51, 0x21, 0, 0, 0,    0x5A, 0x53, 0x41, 0x57, 0x40, 0,
    0,    0x43, 0x58, 0x44, 0x45, 0x24, 0x23, 0, 0, 0x20, 0x56, 0x46, 0x54, 0x52, 0x25, 0,
    0,    0x4E, 0x42, 0x48, 0x47, 0x59, 0x5E, 0, 0, 0,    0x4D, 0x4A, 0x55, 0x26, 0x2A, 0,
    0,    0x3C, 0x4B, 0x49, 0x4F, 0x29, 0x28, 0, 0, 0x3E, 0x3F, 0x4C, 0x3A, 0x50, 0x5F, 0,
    0,    0,    0x22, 0,    0x7B, 0x2B, 0,    0, 0, 0,    LF,   0x7D, 0,    0x7C, 0,    0,
    0,    0,    0,    0,    0,    0,    BS,   0, 0, 0,    0,    0,    0,    0,    0,    0,
    0,    0,    0,    0,    0,    0,    ESC,  0, 0, 0,    0,    0,    0,    0,    0,    0]"

text \<open>
  C does not check an array index. A read past the end of a table is undefined
  behaviour; the model stops there with a fault that records the index.
\<close>

datatype fault = OutOfBounds nat

definition table_read :: "u8 list \<Rightarrow> u8 \<Rightarrow> fault + u8" where
  "table_read tbl code =
     (if unat code < length tbl then Inr (tbl ! unat code)
      else Inl (OutOfBounds (unat code)))"

subsection \<open>Decoder state\<close>

text \<open>
  The three file-scope bytes and the receive FIFO of the PIO state machine.
  \<^verbatim>\<open>release\<close> flags a pending key-release prefix, \<^verbatim>\<open>shift\<close> the shift latch,
  \<^verbatim>\<open>ascii\<close> the translated character waiting for the caller (0 for none).
\<close>

record kbd =
  release :: u8
  shift :: u8
  ascii :: u8
  rxf :: "u8 list"

text \<open>Statics are zero at program start; \<open>q\<close> is what the sampler has queued.\<close>

definition kbd_start :: "u8 list \<Rightarrow> kbd" where
  "kbd_start q = \<lparr>release = 0, shift = 0, ascii = 0, rxf = q\<rparr>"

subsection \<open>\<^verbatim>\<open>kbd_ready\<close>\<close>

text \<open>\<^verbatim>\<open>return ascii;\<close> at the end of \<^verbatim>\<open>kbd_ready\<close>: the byte widened to \<^verbatim>\<open>int\<close>.\<close>

definition ret_ascii :: "kbd \<Rightarrow> fault + int \<times> kbd" where
  "ret_ascii s = Inr (uint (ascii s), s)"

text \<open>The \<^verbatim>\<open>switch (code)\<close> of \<^verbatim>\<open>kbd_ready\<close>, on the state with the code already pulled.\<close>

definition decode :: "u8 \<Rightarrow> kbd \<Rightarrow> fault + int \<times> kbd" where
  "decode code s =
     (if code = 0xF0 then ret_ascii (s\<lparr>release := 1\<rparr>)
      else if code = 0x12 \<or> code = 0x59 then
        (if release s \<noteq> 0 then ret_ascii (s\<lparr>shift := 0, release := 0\<rparr>)
         else ret_ascii (s\<lparr>shift := 1\<rparr>))
      else
        (if release s = 0 then
           (case table_read (if shift s \<noteq> 0 then upper else lower) code of
              Inl e \<Rightarrow> Inl e
            | Inr a \<Rightarrow> ret_ascii (s\<lparr>ascii := a, release := 0\<rparr>))
         else ret_ascii (s\<lparr>release := 0\<rparr>)))"

definition kbd_ready :: "kbd \<Rightarrow> fault + int \<times> kbd" where
  "kbd_ready s =
     (if ascii s \<noteq> 0 then Inr (uint (ascii s), s)
      else case rxf s of
        [] \<Rightarrow> Inr (0, s)
      | code # rest \<Rightarrow> decode code (s\<lparr>rxf := rest\<rparr>))"

subsection \<open>\<^verbatim>\<open>kbd_getc\<close>\<close>

text \<open>
  \<^verbatim>\<open>while (!(c = kbd_ready())) tight_loop_contents(); ascii = 0; return c;\<close>
  The loop spins for as long as \<^verbatim>\<open>kbd_ready\<close> returns 0. The queue of the model
  holds what the sampler has delivered so far, so on a queue that yields no character
  the loop does not return: that is the value \<open>None\<close>. \<open>c\<close> is the \<^verbatim>\<open>int\<close>
  narrowed to \<^verbatim>\<open>char\<close>.
\<close>

partial_function (option) kbd_getc :: "kbd \<Rightarrow> (fault + u8 \<times> kbd) option" where
  "kbd_getc s =
     (case kbd_ready s of
        Inl e \<Rightarrow> Some (Inl e)
      | Inr (r, s') \<Rightarrow>
          (let c = (word_of_int r :: u8)
           in if c = 0 then kbd_getc s' else Some (Inr (c, s'\<lparr>ascii := 0\<rparr>))))"

declare kbd_getc.simps [code]

text \<open>\<open>n\<close> successive calls of \<^verbatim>\<open>kbd_ready\<close>: the values returned, and the state left.\<close>

fun polls :: "nat \<Rightarrow> kbd \<Rightarrow> fault + int list \<times> kbd" where
  "polls 0 s = Inr ([], s)"
| "polls (Suc n) s =
     (case kbd_ready s of
        Inl e \<Rightarrow> Inl e
      | Inr (r, s') \<Rightarrow>
          (case polls n s' of
             Inl e \<Rightarrow> Inl e
           | Inr (rs, s'') \<Rightarrow> Inr (r # rs, s'')))"

subsection \<open>Runs of the decoder\<close>







section \<open>Table facts\<close>

lemma length_lower: "length lower = 128"
  by (simp add: lower_def)

lemma length_upper: "length upper = 128"
  by (simp add: upper_def)

section \<open>One call of \<^verbatim>\<open>kbd_ready\<close>, case by case\<close>

lemma kbd_ready_pending: "ascii s \<noteq> 0 \<Longrightarrow> kbd_ready s = Inr (uint (ascii s), s)"
  by (simp add: kbd_ready_def)

lemma kbd_ready_empty: "ascii s = 0 \<Longrightarrow> rxf s = [] \<Longrightarrow> kbd_ready s = Inr (0, s)"
  by (simp add: kbd_ready_def)

lemma kbd_ready_code: "ascii s = 0 \<Longrightarrow> rxf s = code # rest \<Longrightarrow> kbd_ready s = decode code (s\<lparr>rxf := rest\<rparr>)"
  by (simp add: kbd_ready_def)

lemma polls_pending: "ascii s \<noteq> 0 \<Longrightarrow> polls n s = Inr (replicate n (uint (ascii s)), s)"
  by (induction n) (simp_all add: kbd_ready_pending)

lemma polls_empty: "ascii s = 0 \<Longrightarrow> rxf s = [] \<Longrightarrow> polls n s = Inr (replicate n 0, s)"
  by (induction n) (simp_all add: kbd_ready_empty)

lemma kbd_getc_pending: "ascii s \<noteq> 0 \<Longrightarrow> kbd_getc s = Some (Inr (ascii s, s\<lparr>ascii := 0\<rparr>))"
  by (subst kbd_getc.simps) (simp add: kbd_ready_pending)

lemma kbd_getc_Some_not_idle:
  assumes "kbd_getc s = Some y"
  shows "\<not> (ascii s = 0 \<and> rxf s = [])"
proof (rule kbd_getc.raw_induct [where P = "\<lambda>s y. \<not> (ascii s = 0 \<and> rxf s = [])", OF _ assms])
  fix f s y
  assume IH: "\<And>s y. f s = Some y \<Longrightarrow> \<not> (ascii s = 0 \<and> rxf s = [])"
    and body: "(case kbd_ready s of Inl e \<Rightarrow> Some (Inl e)
        | Inr (r, s') \<Rightarrow> let c = (word_of_int r :: u8)
            in if c = 0 then f s' else Some (Inr (c, s'\<lparr>ascii := 0\<rparr>))) = Some y"
  show "\<not> (ascii s = 0 \<and> rxf s = [])"
  proof
    assume idle: "ascii s = 0 \<and> rxf s = []"
    with body have "f s = Some y" by (simp add: kbd_ready_empty)
    with IH idle show False by blast
  qed
qed

lemma kbd_getc_empty: "ascii s = 0 \<Longrightarrow> rxf s = [] \<Longrightarrow> kbd_getc s = None"
  using kbd_getc_Some_not_idle [of s] by (cases "kbd_getc s") auto

lemma decode_prefix: "decode 0xF0 s = Inr (uint (ascii s), s\<lparr>release := 1\<rparr>)"
  by (simp add: decode_def ret_ascii_def)

lemma decode_shift_make:
  "code = 0x12 \<or> code = 0x59 \<Longrightarrow> release s = 0 \<Longrightarrow>
   decode code s = Inr (uint (ascii s), s\<lparr>shift := 1\<rparr>)"
  by (auto simp: decode_def ret_ascii_def)

lemma decode_shift_break:
  "code = 0x12 \<or> code = 0x59 \<Longrightarrow> release s \<noteq> 0 \<Longrightarrow>
   decode code s = Inr (uint (ascii s), s\<lparr>shift := 0, release := 0\<rparr>)"
  by (auto simp: decode_def ret_ascii_def)

lemma decode_key_break:
  "code \<noteq> 0xF0 \<Longrightarrow> code \<noteq> 0x12 \<Longrightarrow> code \<noteq> 0x59 \<Longrightarrow> release s \<noteq> 0 \<Longrightarrow>
   decode code s = Inr (uint (ascii s), s\<lparr>release := 0\<rparr>)"
  by (simp add: decode_def ret_ascii_def)

lemma in_table_not_prefix: "unat code < 128 \<Longrightarrow> code \<noteq> (0xF0 :: u8)"
  by auto

lemma decode_key_make:
  "unat code < 128 \<Longrightarrow> code \<noteq> 0x12 \<Longrightarrow> code \<noteq> 0x59 \<Longrightarrow> release s = 0 \<Longrightarrow>
   decode code s =
     Inr (uint ((if shift s \<noteq> 0 then upper else lower) ! unat code),
          s\<lparr>ascii := (if shift s \<noteq> 0 then upper else lower) ! unat code, release := 0\<rparr>)"
  using in_table_not_prefix [of code]
  by (simp add: decode_def ret_ascii_def table_read_def length_lower length_upper)

lemma decode_key_fault:
  "128 \<le> unat code \<Longrightarrow> code \<noteq> 0xF0 \<Longrightarrow> release s = 0 \<Longrightarrow>
   decode code s = Inl (OutOfBounds (unat code))"
  by (auto simp: decode_def ret_ascii_def table_read_def length_lower length_upper)

lemma kbd_ready_shift_code:
  assumes "ascii s = 0" and "rxf s = code # rest" and "code = 0x12 \<or> code = 0x59"
  shows "\<exists>s'. kbd_ready s = Inr (0, s') \<and> ascii s' = 0 \<and> release s' = 0 \<and> rxf s' = rest
           \<and> shift s' = (if release s \<noteq> 0 then 0 else 1)"
proof (cases "release s = 0")
  case True
  with assms show ?thesis by (simp add: kbd_ready_code decode_shift_make)
next
  case False
  with assms show ?thesis by (simp add: kbd_ready_code decode_shift_break)
qed



section \<open>\<^verbatim>\<open>kbd_getc\<close> and repeated polling\<close>

lemma kbd_getc_skip: "kbd_ready s = Inr (0, s') \<Longrightarrow> kbd_getc s = kbd_getc s'"
  by (subst kbd_getc.simps) simp

lemma kbd_getc_char:
  "kbd_ready s = Inr (r, s') \<Longrightarrow> (word_of_int r :: u8) \<noteq> 0 \<Longrightarrow>
   kbd_getc s = Some (Inr (word_of_int r, s'\<lparr>ascii := 0\<rparr>))"
  by (subst kbd_getc.simps) simp

lemma polls_Suc_Suc:
  "kbd_ready s = Inr (r1, s1) \<Longrightarrow> kbd_ready s1 = Inr (r2, s2) \<Longrightarrow> polls n s2 = Inr (rs, s3) \<Longrightarrow>
   polls (Suc (Suc n)) s = Inr (r1 # r2 # rs, s3)"
  by simp

lemma polls_2: "polls 2 s = polls (Suc (Suc 0)) s"
  by (simp add: numeral_2_eq_2)



section \<open>Concrete key sequences\<close>

lemma ready_1C:
  "kbd_ready (kbd_start (0x1C # q)) = Inr (0x61, \<lparr>release = 0, shift = 0, ascii = 0x61, rxf = q\<rparr>)"
  by (simp add: kbd_start_def kbd_ready_def decode_def ret_ascii_def table_read_def lower_def)

lemma ready_1C_shifted:
  "kbd_ready ((kbd_start (0x1C # q))\<lparr>shift := 1\<rparr>) = Inr (0x41, \<lparr>release = 0, shift = 1, ascii = 0x41, rxf = q\<rparr>)"
  by (simp add: kbd_start_def kbd_ready_def decode_def ret_ascii_def table_read_def upper_def)

lemma ready_32:
  "kbd_ready (kbd_start (0x32 # q)) = Inr (0x62, \<lparr>release = 0, shift = 0, ascii = 0x62, rxf = q\<rparr>)"
  by (simp add: kbd_start_def kbd_ready_def decode_def ret_ascii_def table_read_def lower_def)

lemma ready_F0:
  "kbd_ready (kbd_start (0xF0 # q)) = Inr (0, (kbd_start q)\<lparr>release := 1\<rparr>)"
  by (simp add: kbd_start_def kbd_ready_def decode_def ret_ascii_def)

lemma ready_released_1C:
  "kbd_ready ((kbd_start (0x1C # q))\<lparr>release := 1\<rparr>) = Inr (0, kbd_start q)"
  by (simp add: kbd_start_def kbd_ready_def decode_def ret_ascii_def)

lemma getc_1C: "kbd_getc (kbd_start (0x1C # q)) = Some (Inr (0x61, kbd_start q))"
  using kbd_getc_char [OF ready_1C, of q] by (simp add: kbd_start_def)

lemma getc_32: "kbd_getc (kbd_start (0x32 # q)) = Some (Inr (0x62, kbd_start q))"
  using kbd_getc_char [OF ready_32, of q] by (simp add: kbd_start_def)

lemma getc_1C_shifted:
  "kbd_getc ((kbd_start (0x1C # q))\<lparr>shift := 1\<rparr>) = Some (Inr (0x41, (kbd_start q)\<lparr>shift := 1\<rparr>))"
  using kbd_getc_char [OF ready_1C_shifted, of q] by (simp add: kbd_start_def)

lemma getc_release_1C: "kbd_getc (kbd_start (0xF0 # 0x1C # q)) = kbd_getc (kbd_start q)"
  by (simp add: kbd_getc_skip [OF ready_F0] kbd_getc_skip [OF ready_released_1C])


lemma getc_idle: "kbd_getc (kbd_start []) = None"
  by (simp add: kbd_getc_empty kbd_start_def)

section \<open>The release flag along a run\<close>







section \<open>Runs that stay inside the tables\<close>






section \<open>The lookup step\<close>

text \<open>
  C1. The claim: a scancode that reaches the lookup step never indexes outside the
  128-entry tables; out-of-range scancodes are rejected, clamped or covered by the
  table. The code indexes \<^verbatim>\<open>(shift ? upper : lower)[code]\<close> with the raw byte and no
  range check. 0xE0, the byte a PS/2 keyboard sends ahead of every extended key, comes
  with \<^verbatim>\<open>release\<close> clear, is none of 0xF0, 0x12, 0x59, reaches the lookup and reads
  entry 224 of a table of 128, whatever the shift state.
\<close>

theorem kbd_ready_extended_prefix_out_of_bounds:
  "length lower = 128 \<and> length upper = 128
   \<and> kbd_ready (kbd_start [0xE0]) = Inl (OutOfBounds 224)
   \<and> kbd_ready ((kbd_start [0xE0])\<lparr>shift := 1\<rparr>) = Inl (OutOfBounds 224)"
  by (simp add: kbd_start_def kbd_ready_def decode_def table_read_def length_lower length_upper)

text \<open>
  C2, as stated: for every scancode other than 0xF0, 0x12 and 0x59, decoding it with
  \<^verbatim>\<open>release\<close> clear stores \<^verbatim>\<open>lower[s]\<close>, or \<^verbatim>\<open>upper[s]\<close> under shift. At
  scancode 0x80 there is no such entry: the index is past the end of the table and
  nothing is stored.
\<close>

theorem kbd_ready_lookup_counterexample:
  "(0x80 :: u8) \<noteq> 0xF0 \<and> (0x80 :: u8) \<noteq> 0x12 \<and> (0x80 :: u8) \<noteq> 0x59
   \<and> release (kbd_start [0x80]) = 0 \<and> shift (kbd_start [0x80]) = 0
   \<and> \<not> unat (0x80 :: u8) < length lower
   \<and> kbd_ready (kbd_start [0x80]) = Inl (OutOfBounds 128)"
  by (simp add: kbd_start_def kbd_ready_def decode_def table_read_def length_lower)

text \<open>
  C2, amended: for every scancode below 128 other than 0x12 and 0x59, one call of
  \<^verbatim>\<open>kbd_ready\<close> in a state with \<^verbatim>\<open>release\<close> and \<^verbatim>\<open>ascii\<close> clear and that
  scancode at the head of the queue pulls it, stores \<^verbatim>\<open>lower[s]\<close> in \<^verbatim>\<open>ascii\<close>
  when \<^verbatim>\<open>shift\<close> is clear and \<^verbatim>\<open>upper[s]\<close> when it is set, and returns that value.
\<close>

theorem kbd_ready_lookup:
  assumes "unat code < 128" and "code \<noteq> 0x12" and "code \<noteq> 0x59"
    and "release s = 0" and "ascii s = 0" and "rxf s = code # rest"
  shows "(shift s = 0 \<longrightarrow>
            kbd_ready s = Inr (uint (lower ! unat code), s\<lparr>rxf := rest, ascii := lower ! unat code\<rparr>))
       \<and> (shift s \<noteq> 0 \<longrightarrow>
            kbd_ready s = Inr (uint (upper ! unat code), s\<lparr>rxf := rest, ascii := upper ! unat code\<rparr>))"
  using assms by (simp add: kbd_ready_code decode_key_make)

text \<open>
  At the key A (0x1C): \<open>a\<close> (0x61) without shift, \<open>A\<close> (0x41) with it.
\<close>

theorem kbd_ready_lookup_witness:
  "unat (0x1C :: u8) < 128
   \<and> kbd_ready (kbd_start [0x1C]) = Inr (0x61, \<lparr>release = 0, shift = 0, ascii = 0x61, rxf = []\<rparr>)
   \<and> kbd_ready ((kbd_start [0x1C])\<lparr>shift := 1\<rparr>) = Inr (0x41, \<lparr>release = 0, shift = 1, ascii = 0x41, rxf = []\<rparr>)"
  using kbd_ready_lookup [of "0x1C" "kbd_start [0x1C]" "[]"]
    kbd_ready_lookup [of "0x1C" "(kbd_start [0x1C])\<lparr>shift := 1\<rparr>" "[]"]
  by (simp add: kbd_start_def lower_def upper_def)

section \<open>The release prefix\<close>

text \<open>
  C3, as stated: in every state with \<^verbatim>\<open>release\<close> set, processing one scancode,
  another 0xF0 included, leaves \<^verbatim>\<open>release\<close> clear. \<^verbatim>\<open>case 0xF0\<close> sets the flag
  whatever it was, so a second prefix keeps it set; the state is the one reached from
  program start by a first 0xF0.
\<close>

theorem release_survives_second_prefix:
  "release \<lparr>release = 1, shift = 0, ascii = 0, rxf = [0xF0]\<rparr> \<noteq> 0
   \<and> kbd_ready \<lparr>release = 1, shift = 0, ascii = 0, rxf = [0xF0]\<rparr>
       = Inr (0, \<lparr>release = 1, shift = 0, ascii = 0, rxf = []\<rparr>)
   \<and> polls 2 (kbd_start [0xF0, 0xF0]) = Inr ([0, 0], \<lparr>release = 1, shift = 0, ascii = 0, rxf = []\<rparr>)"
  by (simp add: kbd_ready_def decode_def ret_ascii_def kbd_start_def polls_2)

text \<open>
  C3, amended: in every state with \<^verbatim>\<open>release\<close> set and no character pending, the
  call of \<^verbatim>\<open>kbd_ready\<close> that pulls the next scancode returns 0, stores no
  character, and leaves \<^verbatim>\<open>release\<close> clear when that scancode is a shift code or an
  ordinary code; when it is another 0xF0 the flag stays set.
\<close>

theorem release_cleared_by_next_code:
  assumes "release s \<noteq> 0" and "ascii s = 0" and "rxf s = code # rest"
  shows "\<exists>s'. kbd_ready s = Inr (0, s') \<and> rxf s' = rest \<and> ascii s' = 0
           \<and> (release s' = 0) = (code \<noteq> 0xF0)"
proof (cases "code = 0xF0")
  case True
  with assms show ?thesis by (simp add: kbd_ready_code decode_prefix)
next
  case False
  show ?thesis
  proof (cases "code = 0x12 \<or> code = 0x59")
    case True
    with assms False show ?thesis by (simp add: kbd_ready_code decode_shift_break)
  next
    case shift: False
    with assms False show ?thesis by (simp add: kbd_ready_code decode_key_break)
  qed
qed

text \<open>
  The release of the key A with shift held: the flag is cleared, no character.
\<close>

theorem release_cleared_by_next_code_witness:
  "release \<lparr>release = 1, shift = 1, ascii = 0, rxf = [0x1C, 0x32]\<rparr> \<noteq> 0
   \<and> kbd_ready \<lparr>release = 1, shift = 1, ascii = 0, rxf = [0x1C, 0x32]\<rparr>
       = Inr (0, \<lparr>release = 0, shift = 1, ascii = 0, rxf = [0x32]\<rparr>)"
  using release_cleared_by_next_code [of "\<lparr>release = 1, shift = 1, ascii = 0, rxf = [0x1C, 0x32]\<rparr>" "0x1C" "[0x32]"]
  by (simp add: kbd_ready_def decode_def ret_ascii_def)

section \<open>Back-pressure\<close>

text \<open>
  C4. While \<^verbatim>\<open>ascii\<close> is non-zero, a call of \<^verbatim>\<open>kbd_ready\<close> returns that
  character and changes nothing: no scancode leaves the queue, \<^verbatim>\<open>release\<close>,
  \<^verbatim>\<open>shift\<close> and \<^verbatim>\<open>ascii\<close> stay as they are, and so for any number of calls,
  until \<^verbatim>\<open>kbd_getc\<close> returns the character and clears it.
\<close>

theorem pending_char_stalls:
  assumes "ascii s \<noteq> 0"
  shows "kbd_ready s = Inr (uint (ascii s), s)
       \<and> (\<forall>n. polls n s = Inr (replicate n (uint (ascii s)), s))
       \<and> kbd_getc s = Some (Inr (ascii s, s\<lparr>ascii := 0\<rparr>))"
  using assms by (simp add: kbd_ready_pending polls_pending kbd_getc_pending)

text \<open>
  With \<open>a\<close> pending and a key release queued behind it.
\<close>

theorem pending_char_stalls_witness:
  "ascii \<lparr>release = 0, shift = 0, ascii = 0x61, rxf = [0xF0, 0x1C]\<rparr> \<noteq> 0
   \<and> kbd_ready \<lparr>release = 0, shift = 0, ascii = 0x61, rxf = [0xF0, 0x1C]\<rparr>
       = Inr (0x61, \<lparr>release = 0, shift = 0, ascii = 0x61, rxf = [0xF0, 0x1C]\<rparr>)
   \<and> polls 3 \<lparr>release = 0, shift = 0, ascii = 0x61, rxf = [0xF0, 0x1C]\<rparr>
       = Inr ([0x61, 0x61, 0x61], \<lparr>release = 0, shift = 0, ascii = 0x61, rxf = [0xF0, 0x1C]\<rparr>)
   \<and> kbd_getc \<lparr>release = 0, shift = 0, ascii = 0x61, rxf = [0xF0, 0x1C]\<rparr>
       = Some (Inr (0x61, \<lparr>release = 0, shift = 0, ascii = 0, rxf = [0xF0, 0x1C]\<rparr>))"
  using pending_char_stalls [of "\<lparr>release = 0, shift = 0, ascii = 0x61, rxf = [0xF0, 0x1C]\<rparr>"]
  by (simp add: numeral_3_eq_3)

section \<open>Key sequences from program start\<close>

text \<open>
  C5. From program start, the sequence 0xF0, 0x1C leaves no character pending, however
  often \<^verbatim>\<open>kbd_ready\<close> is called, and \<^verbatim>\<open>kbd_getc\<close> has nothing to return; 0x1C
  alone gives \<open>a\<close>, and \<open>A\<close> when \<^verbatim>\<open>shift\<close> is set.
\<close>

theorem release_suppresses_key:
  "(\<forall>n. \<exists>s'. polls n (kbd_start [0xF0, 0x1C]) = Inr (replicate n 0, s') \<and> ascii s' = 0)
   \<and> kbd_getc (kbd_start [0xF0, 0x1C]) = None
   \<and> kbd_ready (kbd_start [0x1C])
       = Inr (uint (of_char CHR ''a'' :: u8), \<lparr>release = 0, shift = 0, ascii = of_char CHR ''a'', rxf = []\<rparr>)
   \<and> kbd_getc (kbd_start [0x1C]) = Some (Inr (of_char CHR ''a'', kbd_start []))
   \<and> kbd_ready ((kbd_start [0x1C])\<lparr>shift := 1\<rparr>)
       = Inr (uint (of_char CHR ''A'' :: u8), \<lparr>release = 0, shift = 1, ascii = of_char CHR ''A'', rxf = []\<rparr>)
   \<and> kbd_getc ((kbd_start [0x1C])\<lparr>shift := 1\<rparr>)
       = Some (Inr (of_char CHR ''A'', (kbd_start [])\<lparr>shift := 1\<rparr>))"
proof -
  have silent: "\<exists>s'. polls n (kbd_start [0xF0, 0x1C]) = Inr (replicate n 0, s') \<and> ascii s' = 0" for n
  proof (cases n)
    case 0
    then show ?thesis by (simp add: kbd_start_def)
  next
    case (Suc m)
    show ?thesis
    proof (cases m)
      case 0
      with Suc show ?thesis using ready_F0 [of "[0x1C]"] by (simp add: kbd_start_def)
    next
      case (Suc k)
      have "polls k (kbd_start []) = Inr (replicate k 0, kbd_start [])"
        by (simp add: polls_empty kbd_start_def)
      then have "polls (Suc (Suc k)) (kbd_start [0xF0, 0x1C]) = Inr (0 # 0 # replicate k 0, kbd_start [])"
        by (rule polls_Suc_Suc [OF ready_F0 ready_released_1C])
      with Suc \<open>n = Suc m\<close> show ?thesis by (simp add: kbd_start_def)
    qed
  qed
  have blocked: "kbd_getc (kbd_start [0xF0, 0x1C]) = None"
    by (simp add: getc_release_1C getc_idle)
  show ?thesis
    using silent blocked ready_1C [of "[]"] ready_1C_shifted [of "[]"] getc_1C [of "[]"] getc_1C_shifted [of "[]"]
    by simp
qed




text \<open>
  C7. From program start with shift never pressed, the stream 0x1C, 0xF0, 0x1C, 0x32
  gives \<open>a\<close> to the first \<^verbatim>\<open>kbd_getc\<close> and \<open>b\<close> to the second, and then the queue
  is empty: a third call has nothing to return.
\<close>

theorem press_release_press_yields_ab:
  "kbd_getc (kbd_start [0x1C, 0xF0, 0x1C, 0x32]) = Some (Inr (of_char CHR ''a'', kbd_start [0xF0, 0x1C, 0x32]))
   \<and> kbd_getc (kbd_start [0xF0, 0x1C, 0x32]) = Some (Inr (of_char CHR ''b'', kbd_start []))
   \<and> kbd_getc (kbd_start []) = None"
  by (simp add: getc_1C getc_release_1C getc_32 getc_idle)

section \<open>Shift\<close>

text \<open>
  C8. Two 0x12 scancodes in a row, with no 0xF0 between them, leave \<^verbatim>\<open>shift\<close> set:
  the second press does not toggle it back.
\<close>

theorem shift_make_twice:
  assumes "ascii s = 0" and "rxf s = 0x12 # 0x12 # rest"
  shows "\<exists>s'. polls 2 s = Inr ([0, 0], s') \<and> shift s' = 1 \<and> release s' = 0 \<and> rxf s' = rest"
proof -
  from assms obtain s1 where first: "kbd_ready s = Inr (0, s1)"
    and s1: "ascii s1 = 0" "release s1 = 0" "rxf s1 = 0x12 # rest"
    using kbd_ready_shift_code [of s "0x12" "0x12 # rest"] by auto
  from s1 obtain s2 where second: "kbd_ready s1 = Inr (0, s2)"
    and s2: "shift s2 = 1" "release s2 = 0" "rxf s2 = rest"
    using kbd_ready_shift_code [of s1 "0x12" rest] by auto
  have "polls (Suc (Suc 0)) s = Inr ([0, 0], s2)"
    by (rule polls_Suc_Suc [OF first second]) simp
  with s2 show ?thesis by (simp add: polls_2)
qed

text \<open>
  From program start, with the key A queued behind the two presses.
\<close>

theorem shift_make_twice_witness:
  "ascii (kbd_start [0x12, 0x12, 0x1C]) = 0
   \<and> polls 2 (kbd_start [0x12, 0x12, 0x1C]) = Inr ([0, 0], \<lparr>release = 0, shift = 1, ascii = 0, rxf = [0x1C]\<rparr>)"
  using shift_make_twice [of "kbd_start [0x12, 0x12, 0x1C]" "[0x1C]"]
  by (simp add: polls_2 kbd_start_def kbd_ready_def decode_def ret_ascii_def)

text \<open>
  C9. Backspace (0x66), tab (0x0D), enter (0x5A) and escape (0x76) hold BS, TAB, LF and
  ESC in both tables, so these keys decode to 0x08, 0x09, 0x0A and 0x1B whatever the
  value of \<^verbatim>\<open>shift\<close>.
\<close>

theorem control_codes_ignore_shift:
  "lower ! 0x66 = BS \<and> upper ! 0x66 = BS \<and> BS = 0x08
   \<and> lower ! 0x0D = TAB \<and> upper ! 0x0D = TAB \<and> TAB = 0x09
   \<and> lower ! 0x5A = LF \<and> upper ! 0x5A = LF \<and> LF = 0x0A
   \<and> lower ! 0x76 = ESC \<and> upper ! 0x76 = ESC \<and> ESC = 0x1B
   \<and> kbd_ready \<lparr>release = 0, shift = sh, ascii = 0, rxf = 0x66 # q\<rparr>
       = Inr (0x08, \<lparr>release = 0, shift = sh, ascii = 0x08, rxf = q\<rparr>)
   \<and> kbd_ready \<lparr>release = 0, shift = sh, ascii = 0, rxf = 0x0D # q\<rparr>
       = Inr (0x09, \<lparr>release = 0, shift = sh, ascii = 0x09, rxf = q\<rparr>)
   \<and> kbd_ready \<lparr>release = 0, shift = sh, ascii = 0, rxf = 0x5A # q\<rparr>
       = Inr (0x0A, \<lparr>release = 0, shift = sh, ascii = 0x0A, rxf = q\<rparr>)
   \<and> kbd_ready \<lparr>release = 0, shift = sh, ascii = 0, rxf = 0x76 # q\<rparr>
       = Inr (0x1B, \<lparr>release = 0, shift = sh, ascii = 0x1B, rxf = q\<rparr>)"
proof -
  have tables: "lower ! 0x66 = 0x08" "upper ! 0x66 = 0x08" "lower ! 0x0D = 0x09" "upper ! 0x0D = 0x09"
    "lower ! 0x5A = 0x0A" "upper ! 0x5A = 0x0A" "lower ! 0x76 = 0x1B" "upper ! 0x76 = 0x1B"
    by (simp_all add: lower_def upper_def BS_def TAB_def LF_def ESC_def)
  have key: "kbd_ready \<lparr>release = 0, shift = sh, ascii = 0, rxf = code # q\<rparr>
      = Inr (uint c, \<lparr>release = 0, shift = sh, ascii = c, rxf = q\<rparr>)"
    if "unat code < 128" "code \<noteq> 0x12" "code \<noteq> 0x59" "lower ! unat code = c" "upper ! unat code = c"
    for code c
    using that by (simp add: kbd_ready_code [where rest = q] decode_key_make)
  show ?thesis
    using tables key [of "0x66" "0x08"] key [of "0x0D" "0x09"] key [of "0x5A" "0x0A"] key [of "0x76" "0x1B"]
    by (simp add: BS_def TAB_def LF_def ESC_def)
qed

section \<open>The release flag is the last scancode pulled\<close>




end
